theory Spec2Isabelle
  imports Complex_Main
begin

section \<open>Errors and tensors\<close>

text \<open>
  The program is Python on top of a tensor library. Exceptions are values: a computation
  that can raise returns \<open>error + 'a\<close>, with \<open>Inl\<close> for the exception, and \<open>bind_e\<close>
  sequences two such computations the way Python's control flow does (the first exception
  aborts the rest). Tensor elements are real numbers: rounding, infinities and NaN of
  floating point are outside this development.
\<close>

datatype error = RuntimeError | IndexError | ValueError

definition bind_e :: "error + 'a \<Rightarrow> ('a \<Rightarrow> error + 'b) \<Rightarrow> error + 'b" where
  "bind_e r f = (case r of Inl e \<Rightarrow> Inl e | Inr x \<Rightarrow> f x)"

text \<open>
  A two-dimensional tensor (batch times features) is its number of columns and the list of
  its rows; the number of rows is the length of the list. The number of columns is kept
  apart so that a tensor with no rows still has a shape.
\<close>

datatype tensor = Tensor (ncols: nat) (rows: "real list list")

definition nrows :: "tensor \<Rightarrow> nat" where
  "nrows x = length (rows x)"

definition shaped :: "nat \<Rightarrow> nat \<Rightarrow> tensor \<Rightarrow> bool" where
  "shaped B F x = (ncols x = F \<and> nrows x = B \<and> list_all (\<lambda>r. length r = F) (rows x))"

definition map_tensor :: "(real \<Rightarrow> real) \<Rightarrow> tensor \<Rightarrow> tensor" where
  "map_tensor f x = Tensor (ncols x) (map (map f) (rows x))"

definition elems :: "tensor \<Rightarrow> real set" where
  "elems x = \<Union> (set (map set (rows x)))"

definition full :: "nat \<Rightarrow> nat \<Rightarrow> real \<Rightarrow> tensor" where
  "full B F v = Tensor F (replicate B (replicate F v))"

subsection \<open>Library operations used by the source\<close>

text \<open>
  \<open>torch.cat([x, y], dim=1)\<close> on two-dimensional tensors (\<open>dim=-1\<close> is the same axis):
  the row counts must agree, the rows are joined.
\<close>

definition cat1 :: "tensor \<Rightarrow> tensor \<Rightarrow> error + tensor" where
  "cat1 x y =
     (if nrows x = nrows y
      then Inr (Tensor (ncols x + ncols y) (map2 (@) (rows x) (rows y)))
      else Inl RuntimeError)"

text \<open>
  \<open>a, b = torch.chunk(x, 2, dim=1)\<close>: the library cuts the \<open>n\<close> columns into pieces of
  \<open>\<lceil>n / 2\<rceil>\<close> columns. For \<open>n = 1\<close> there is one piece only and the unpacking into two
  names raises \<open>ValueError\<close>.
\<close>

definition chunk2 :: "tensor \<Rightarrow> error + tensor \<times> tensor" where
  "chunk2 x =
     (let n = ncols x; k = (n + 1) div 2
      in if n = 1 then Inl ValueError
         else Inr (Tensor k (map (take k) (rows x)), Tensor (n - k) (map (drop k) (rows x))))"

text \<open>
  Elementwise binary operators broadcast: along each axis the two sizes must be equal or
  one of them must be 1, and the operand of size 1 is repeated (\<open>expand_to\<close> is applied
  to a list of the wanted length or of length 1).
\<close>

definition bdim :: "nat \<Rightarrow> nat \<Rightarrow> nat option" where
  "bdim a b = (if a = b then Some a else if a = 1 then Some b else if b = 1 then Some a else None)"

definition expand_to :: "nat \<Rightarrow> 'a list \<Rightarrow> 'a list" where
  "expand_to n xs = (if length xs = n then xs else concat (replicate n xs))"

definition binop :: "(real \<Rightarrow> real \<Rightarrow> real) \<Rightarrow> tensor \<Rightarrow> tensor \<Rightarrow> error + tensor" where
  "binop f x y =
     (case bdim (nrows x) (nrows y) of
        None \<Rightarrow> Inl RuntimeError
      | Some b \<Rightarrow>
         (case bdim (ncols x) (ncols y) of
            None \<Rightarrow> Inl RuntimeError
          | Some c \<Rightarrow>
             Inr (Tensor c (map2 (\<lambda>r q. map2 f (expand_to c r) (expand_to c q))
                              (expand_to b (rows x)) (expand_to b (rows y))))))"

definition mul :: "tensor \<Rightarrow> tensor \<Rightarrow> error + tensor" where
  "mul = binop (\<lambda>a b. a * b)"

definition add :: "tensor \<Rightarrow> tensor \<Rightarrow> error + tensor" where
  "add = binop (\<lambda>a b. a + b)"

text \<open>
  \<open>F.softplus\<close> with the library's defaults (\<open>beta = 1\<close>, \<open>threshold = 20\<close>): above the
  threshold the library returns its argument.
\<close>

definition softplus :: "real \<Rightarrow> real" where
  "softplus x = (if x > 20 then x else ln (1 + exp x))"

text \<open>
  Random numbers: the generator is a fixed sequence \<open>\<xi>\<close> of draws and a position in it.
  \<open>torch.randn_like(x)\<close> reads as many draws as \<open>x\<close> has elements, in row-major order,
  and advances the position.
\<close>

definition randn_like :: "(nat \<Rightarrow> real) \<Rightarrow> nat \<Rightarrow> tensor \<Rightarrow> tensor \<times> nat" where
  "randn_like \<xi> p x =
     (Tensor (ncols x)
        (map (\<lambda>i. map (\<lambda>j. \<xi> (p + i * ncols x + j)) [0..<ncols x]) [0..<nrows x]),
      p + nrows x * ncols x)"

text \<open>
  Indexing \<open>xs[i]\<close> along the leading axis: an index from \<open>-len\<close> to \<open>-1\<close> counts from
  the end, an index outside \<open>-len \<dots> len - 1\<close> raises \<open>IndexError\<close>.
\<close>

definition index :: "'a list \<Rightarrow> int \<Rightarrow> error + 'a" where
  "index xs i =
     (if 0 \<le> i \<and> i < int (length xs) then Inr (xs ! nat i)
      else if i < 0 \<and> - int (length xs) \<le> i then Inr (xs ! nat (int (length xs) + i))
      else Inl IndexError)"

text \<open>
  \<open>torch.stack(ts, dim=0)\<close>: the list must not be empty and all its tensors must have one
  shape; the result is the sequence of the tensors along a new leading axis.
\<close>

definition stack :: "tensor list \<Rightarrow> error + tensor list" where
  "stack ts =
     (if ts = [] then Inl RuntimeError
      else if list_all (\<lambda>t. nrows t = nrows (hd ts) \<and> ncols t = ncols (hd ts)) ts then Inr ts
      else Inl RuntimeError)"

section \<open>SampleDist\<close>

text \<open>
  The wrapper holds the wrapped distribution and the sample count as given. The constructor
  is two assignments: it performs no check and raises nothing.
\<close>

record 'd SampleDist =
  sd_dist :: 'd
  sd_samples :: int

definition SampleDist_init :: "'d \<Rightarrow> int \<Rightarrow> error + 'd SampleDist" where
  "SampleDist_init d samples = Inr \<lparr>sd_dist = d, sd_samples = samples\<rparr>"

section \<open>ActionModel\<close>

text \<open>
  The distribution objects the action model builds. Their constructors store their
  arguments; \<open>Normal\<close> broadcasts location and scale to one shape. Argument validation by
  the library is not part of this development.
\<close>

datatype transform = TanhTransform

datatype distribution =
    Normal tensor tensor
  | TransformedDistribution distribution "transform list"
  | Independent distribution nat

definition Normal_init :: "tensor \<Rightarrow> tensor \<Rightarrow> error + distribution" where
  "Normal_init loc scale =
     bind_e (binop (\<lambda>a b. a) loc scale) (\<lambda>loc'.
     bind_e (binop (\<lambda>a b. b) loc scale) (\<lambda>scale'.
     Inr (Normal loc' scale')))"

text \<open>
  The layers and the activation function are library modules chosen at construction time;
  they are parameters here. Each maps a tensor to a tensor or raises.
\<close>

record ActionModel =
  act_fn_a :: "tensor \<Rightarrow> error + tensor"
  fc1 :: "tensor \<Rightarrow> error + tensor"
  fc2 :: "tensor \<Rightarrow> error + tensor"
  fc3 :: "tensor \<Rightarrow> error + tensor"
  fc4 :: "tensor \<Rightarrow> error + tensor"
  fc5 :: "tensor \<Rightarrow> error + tensor"
  min_std :: real
  init_std :: real
  mean_scale :: real

text \<open>
  \<open>layer_a m f x\<close> is \<open>self.act_fn(f(x))\<close>. \<open>policy_raw\<close> is lines 231 to 235 of
  \<open>ActionModel.forward\<close>: the backbone and the split of its output into the raw mean and
  the raw scale. \<open>squash\<close> is lines 230, 236 and 237: the bounded mean and the floored
  standard deviation. \<open>np.log\<close> of a number that is not positive is not a real number
  (nor is a division by \<open>mean_scale = 0\<close>): the development speaks about configurations
  with \<open>init_std > 0\<close> only. The parameter \<open>training\<close> is the one of the source.
\<close>

definition layer_a :: "ActionModel \<Rightarrow> (tensor \<Rightarrow> error + tensor) \<Rightarrow> tensor \<Rightarrow> error + tensor" where
  "layer_a m f x = bind_e (f x) (act_fn_a m)"

definition policy_raw :: "ActionModel \<Rightarrow> tensor \<Rightarrow> tensor \<Rightarrow> error + tensor \<times> tensor" where
  "policy_raw m belief state =
     bind_e (cat1 belief state) (\<lambda>x.
     bind_e (layer_a m (fc1 m) x) (\<lambda>hidden.
     bind_e (layer_a m (fc2 m) hidden) (\<lambda>hidden.
     bind_e (layer_a m (fc3 m) hidden) (\<lambda>hidden.
     bind_e (layer_a m (fc4 m) hidden) (\<lambda>hidden.
     bind_e (fc5 m hidden) chunk2)))))"

definition squash :: "ActionModel \<Rightarrow> tensor \<Rightarrow> tensor \<Rightarrow> tensor \<times> tensor" where
  "squash m mean std =
     (let raw_init_std = ln (exp (init_std m) - 1) in
      (map_tensor (\<lambda>v. mean_scale m * tanh (v / mean_scale m)) mean,
       map_tensor (\<lambda>v. softplus (v + raw_init_std) + min_std m) std))"

text \<open>
  \<open>ActionModel.forward\<close>: the squashed parameters are wrapped into the distribution
  objects and into a \<open>SampleDist\<close> with its default sample count, 100.
\<close>

definition ActionModel_forward :: "ActionModel \<Rightarrow> tensor \<Rightarrow> tensor \<Rightarrow> bool \<Rightarrow> error + distribution SampleDist" where
  "ActionModel_forward m belief state training =
     bind_e (policy_raw m belief state) (\<lambda>(mean, std).
     let (mean, std) = squash m mean std in
     bind_e (Normal_init mean std) (\<lambda>base_dist.
     SampleDist_init (Independent (TransformedDistribution base_dist [TanhTransform]) 1) 100))"

section \<open>The methods of SampleDist\<close>














section \<open>TransitionModel\<close>

record TransitionModel =
  act_fn :: "tensor \<Rightarrow> error + tensor"
  min_std_dev :: real
  fc_embed_state_action :: "tensor \<Rightarrow> error + tensor"
  rnn :: "tensor \<Rightarrow> tensor \<Rightarrow> error + tensor"
  fc_embed_belief_prior :: "tensor \<Rightarrow> error + tensor"
  fc_state_prior :: "tensor \<Rightarrow> error + tensor"
  fc_embed_belief_posterior :: "tensor \<Rightarrow> error + tensor"
  fc_state_posterior :: "tensor \<Rightarrow> error + tensor"

text \<open>
  The seven Python lists of \<open>forward\<close>, each of \<open>T\<close> slots, and the position of the random
  generator. \<open>empty0\<close> is \<open>torch.empty(0)\<close>, the placeholder with no elements that fills
  the slots at the start.
\<close>

record slots =
  beliefs :: "tensor list"
  prior_states :: "tensor list"
  prior_means :: "tensor list"
  prior_std_devs :: "tensor list"
  posterior_states :: "tensor list"
  posterior_means :: "tensor list"
  posterior_std_devs :: "tensor list"
  rng_pos :: nat

definition empty0 :: tensor where
  "empty0 = Tensor 0 []"

text \<open>Line 58: the previous state is the prior one without observations, else the posterior one.\<close>

definition select_state :: "tensor list option \<Rightarrow> slots \<Rightarrow> nat \<Rightarrow> tensor" where
  "select_state observations s t =
     (if observations = None then prior_states s ! t else posterior_states s ! t)"

text \<open>Line 59: with a mask, the state is multiplied by \<open>nonterminals[t]\<close>.\<close>

definition mask_state :: "tensor list option \<Rightarrow> nat \<Rightarrow> tensor \<Rightarrow> error + tensor" where
  "mask_state nonterminals t state =
     (case nonterminals of
        None \<Rightarrow> Inr state
      | Some n \<Rightarrow> bind_e (index n (int t)) (\<lambda>nt. mul state nt))"

text \<open>Lines 62 and 63: the next belief from the masked state, the action and the belief.\<close>

definition next_belief :: "TransitionModel \<Rightarrow> tensor \<Rightarrow> tensor \<Rightarrow> tensor \<Rightarrow> error + tensor" where
  "next_belief m state action belief =
     bind_e (cat1 state action) (\<lambda>x.
     bind_e (fc_embed_state_action m x) (\<lambda>h.
     bind_e (act_fn m h) (\<lambda>hidden.
     rnn m hidden belief)))"

text \<open>Lines 65 to 67: mean and floored standard deviation of the prior, from the belief.\<close>

definition prior_params :: "TransitionModel \<Rightarrow> tensor \<Rightarrow> error + tensor \<times> tensor" where
  "prior_params m belief =
     bind_e (fc_embed_belief_prior m belief) (\<lambda>h.
     bind_e (act_fn m h) (\<lambda>hidden.
     bind_e (fc_state_prior m hidden) (\<lambda>out.
     bind_e (chunk2 out) (\<lambda>(mean, raw).
     Inr (mean, map_tensor (\<lambda>v. softplus v + min_std_dev m) raw)))))"

text \<open>
  Lines 73 to 75: mean and floored standard deviation of the posterior, from the belief
  joined with one observation.
\<close>

definition posterior_params :: "TransitionModel \<Rightarrow> tensor \<Rightarrow> tensor \<Rightarrow> error + tensor \<times> tensor" where
  "posterior_params m belief observation =
     bind_e (cat1 belief observation) (\<lambda>x.
     bind_e (fc_embed_belief_posterior m x) (\<lambda>h.
     bind_e (act_fn m h) (\<lambda>hidden.
     bind_e (fc_state_posterior m hidden) (\<lambda>out.
     bind_e (chunk2 out) (\<lambda>(mean, raw).
     Inr (mean, map_tensor (\<lambda>v. softplus v + min_std_dev m) raw))))))"

text \<open>Lines 68 and 76: \<open>mean + std * torch.randn_like(mean)\<close>.\<close>

definition sample_state :: "(nat \<Rightarrow> real) \<Rightarrow> nat \<Rightarrow> tensor \<Rightarrow> tensor \<Rightarrow> error + tensor \<times> nat" where
  "sample_state \<xi> p mean std =
     (let (noise, p') = randn_like \<xi> p mean in
      bind_e (mul std noise) (\<lambda>scaled.
      bind_e (add mean scaled) (\<lambda>state.
      Inr (state, p'))))"

text \<open>
  The part of the loop body after the masking (lines 62 to 76): the step of the dynamics
  from the belief \<open>beliefs[t]\<close>, the masked state and the action, storing into slot
  \<open>t + 1\<close>. With observations, the one at index \<open>t_ + 1\<close> is used, where \<open>t_ = t - 1\<close> (written \<open>t'\<close> below).
\<close>

definition dynamics :: "TransitionModel \<Rightarrow> (nat \<Rightarrow> real) \<Rightarrow> tensor list option \<Rightarrow> nat \<Rightarrow> tensor \<Rightarrow> tensor \<Rightarrow> slots \<Rightarrow> error + slots" where
  "dynamics m \<xi> observations t state action s =
     bind_e (next_belief m state action (beliefs s ! t)) (\<lambda>b.
     let s = s\<lparr>beliefs := (beliefs s)[t + 1 := b]\<rparr> in
     bind_e (prior_params m (beliefs s ! (t + 1))) (\<lambda>(mean, std).
     let s = s\<lparr>prior_means := (prior_means s)[t + 1 := mean],
               prior_std_devs := (prior_std_devs s)[t + 1 := std]\<rparr> in
     bind_e (sample_state \<xi> (rng_pos s) (prior_means s ! (t + 1)) (prior_std_devs s ! (t + 1))) (\<lambda>(st, p).
     let s = s\<lparr>prior_states := (prior_states s)[t + 1 := st], rng_pos := p\<rparr> in
     (case observations of
        None \<Rightarrow> Inr s
      | Some obs \<Rightarrow>
         let t' = int t - 1 in
         bind_e (index obs (t' + 1)) (\<lambda>ob.
         bind_e (posterior_params m (beliefs s ! (t + 1)) ob) (\<lambda>(mean, std).
         let s = s\<lparr>posterior_means := (posterior_means s)[t + 1 := mean],
                   posterior_std_devs := (posterior_std_devs s)[t + 1 := std]\<rparr> in
         bind_e (sample_state \<xi> (rng_pos s) (posterior_means s ! (t + 1)) (posterior_std_devs s ! (t + 1))) (\<lambda>(st, p).
         Inr (s\<lparr>posterior_states := (posterior_states s)[t + 1 := st], rng_pos := p\<rparr>))))))))"

text \<open>The loop body: lines 58 to 76 for one value of \<open>t\<close>.\<close>

definition body :: "TransitionModel \<Rightarrow> (nat \<Rightarrow> real) \<Rightarrow> tensor list \<Rightarrow> tensor list option \<Rightarrow> tensor list option \<Rightarrow> nat \<Rightarrow> slots \<Rightarrow> error + slots" where
  "body m \<xi> actions observations nonterminals t s =
     bind_e (mask_state nonterminals t (select_state observations s t)) (\<lambda>state.
     bind_e (index actions (int t)) (\<lambda>action.
     dynamics m \<xi> observations t state action s))"

text \<open>\<open>loop \<dots> k s\<close> runs the body for \<open>t = 0, \<dots>, k - 1\<close>, in this order.\<close>

primrec loop :: "TransitionModel \<Rightarrow> (nat \<Rightarrow> real) \<Rightarrow> tensor list \<Rightarrow> tensor list option \<Rightarrow> tensor list option \<Rightarrow> nat \<Rightarrow> slots \<Rightarrow> error + slots" where
  "loop m \<xi> actions observations nonterminals 0 s = Inr s"
| "loop m \<xi> actions observations nonterminals (Suc k) s =
     bind_e (loop m \<xi> actions observations nonterminals k s)
            (body m \<xi> actions observations nonterminals k)"

definition init_slots :: "nat \<Rightarrow> nat \<Rightarrow> tensor \<Rightarrow> tensor \<Rightarrow> slots" where
  "init_slots T p prev_state prev_belief =
     \<lparr>beliefs = (replicate T empty0)[0 := prev_belief],
      prior_states = (replicate T empty0)[0 := prev_state],
      prior_means = replicate T empty0,
      prior_std_devs = replicate T empty0,
      posterior_states = (replicate T empty0)[0 := prev_state],
      posterior_means = replicate T empty0,
      posterior_std_devs = replicate T empty0,
      rng_pos = p\<rparr>"

text \<open>
  Lines 79 to 82: the slots from 1 on are stacked; the result is the list of four
  sequences, or of seven with observations.
\<close>

definition stack_hidden :: "tensor list option \<Rightarrow> slots \<Rightarrow> error + tensor list list" where
  "stack_hidden observations s =
     bind_e (stack (drop 1 (beliefs s))) (\<lambda>h0.
     bind_e (stack (drop 1 (prior_states s))) (\<lambda>h1.
     bind_e (stack (drop 1 (prior_means s))) (\<lambda>h2.
     bind_e (stack (drop 1 (prior_std_devs s))) (\<lambda>h3.
     let hidden = [h0, h1, h2, h3] in
     if observations \<noteq> None
     then bind_e (stack (drop 1 (posterior_states s))) (\<lambda>h4.
          bind_e (stack (drop 1 (posterior_means s))) (\<lambda>h5.
          bind_e (stack (drop 1 (posterior_std_devs s))) (\<lambda>h6.
          Inr (hidden @ [h4, h5, h6]))))
     else Inr hidden))))"

text \<open>
  \<open>TransitionModel.forward\<close>; \<open>\<xi>\<close> and \<open>p\<close> are the random generator and its position at
  the call.
\<close>

definition forward :: "TransitionModel \<Rightarrow> (nat \<Rightarrow> real) \<Rightarrow> nat \<Rightarrow> tensor \<Rightarrow> tensor list \<Rightarrow> tensor \<Rightarrow> tensor list option \<Rightarrow> tensor list option \<Rightarrow> error + tensor list list" where
  "forward m \<xi> p prev_state actions prev_belief observations nonterminals =
     (let T = length actions + 1 in
      bind_e (loop m \<xi> actions observations nonterminals (T - 1)
                (init_slots T p prev_state prev_belief))
             (stack_hidden observations))"

section \<open>Well-shaped models and inputs\<close>

text \<open>
  The shape contract of a library layer: on a batch of \<open>B\<close> rows with \<open>i\<close> features it
  returns a batch of \<open>B\<close> rows with \<open>n\<close> features. A transition model is well-shaped
  for batch size \<open>B\<close>, belief size \<open>bs\<close>, state size \<open>ss\<close>, action size \<open>acs\<close>, hidden size
  \<open>hs\<close> and embedding size \<open>es\<close> when its layers have the sizes the constructor gives them.
\<close>

definition layer_ok :: "(tensor \<Rightarrow> error + tensor) \<Rightarrow> nat \<Rightarrow> nat \<Rightarrow> nat \<Rightarrow> bool" where
  "layer_ok f B i n = (\<forall>x. shaped B i x \<longrightarrow> (\<exists>y. f x = Inr y \<and> shaped B n y))"

definition cell_ok :: "(tensor \<Rightarrow> tensor \<Rightarrow> error + tensor) \<Rightarrow> nat \<Rightarrow> nat \<Rightarrow> bool" where
  "cell_ok f B n = (\<forall>x h. shaped B n x \<and> shaped B n h \<longrightarrow> (\<exists>y. f x h = Inr y \<and> shaped B n y))"

definition model_ok :: "TransitionModel \<Rightarrow> nat \<Rightarrow> nat \<Rightarrow> nat \<Rightarrow> nat \<Rightarrow> nat \<Rightarrow> nat \<Rightarrow> bool" where
  "model_ok m B bs ss acs hs es =
     (layer_ok (fc_embed_state_action m) B (ss + acs) bs \<and>
      layer_ok (act_fn m) B bs bs \<and>
      layer_ok (act_fn m) B hs hs \<and>
      cell_ok (rnn m) B bs \<and>
      layer_ok (fc_embed_belief_prior m) B bs hs \<and>
      layer_ok (fc_state_prior m) B hs (2 * ss) \<and>
      layer_ok (fc_embed_belief_posterior m) B (bs + es) hs \<and>
      layer_ok (fc_state_posterior m) B hs (2 * ss))"

text \<open>
  Well-shaped inputs of \<open>forward\<close>: the initial state and belief, one action per step,
  and, when given, at least one observation embedding and one mask of shape
  \<open>B \<times> 1\<close> per action.
\<close>

definition inputs_ok :: "nat \<Rightarrow> nat \<Rightarrow> nat \<Rightarrow> nat \<Rightarrow> nat \<Rightarrow> tensor \<Rightarrow> tensor list \<Rightarrow> tensor \<Rightarrow> tensor list option \<Rightarrow> tensor list option \<Rightarrow> bool" where
  "inputs_ok B bs ss acs es prev_state actions prev_belief observations nonterminals =
     (shaped B ss prev_state \<and> shaped B bs prev_belief \<and> list_all (shaped B acs) actions \<and>
      (case observations of
         None \<Rightarrow> True
       | Some obs \<Rightarrow> length actions \<le> length obs \<and> list_all (shaped B es) obs) \<and>
      (case nonterminals of
         None \<Rightarrow> True
       | Some nt \<Rightarrow> length actions \<le> length nt \<and> list_all (shaped B 1) nt))"

text \<open>
  The state of the loop before iteration \<open>k\<close>: every list has \<open>T\<close> slots, and the slots
  up to \<open>k\<close> that later iterations read hold tensors of the right shapes.
\<close>

definition lens :: "nat \<Rightarrow> slots \<Rightarrow> bool" where
  "lens T s =
     (length (beliefs s) = T \<and> length (prior_states s) = T \<and> length (prior_means s) = T \<and>
      length (prior_std_devs s) = T \<and> length (posterior_states s) = T \<and>
      length (posterior_means s) = T \<and> length (posterior_std_devs s) = T)"

definition slots_ok :: "nat \<Rightarrow> nat \<Rightarrow> nat \<Rightarrow> nat \<Rightarrow> tensor list option \<Rightarrow> nat \<Rightarrow> slots \<Rightarrow> bool" where
  "slots_ok B bs ss T observations k s =
     (lens T s \<and> k < T \<and>
      shaped B bs (beliefs s ! 0) \<and> shaped B ss (prior_states s ! 0) \<and>
      shaped B ss (posterior_states s ! 0) \<and>
      (\<forall>i. 1 \<le> i \<and> i \<le> k \<longrightarrow>
         shaped B bs (beliefs s ! i) \<and> shaped B ss (prior_states s ! i) \<and>
         shaped B ss (prior_means s ! i) \<and> shaped B ss (prior_std_devs s ! i) \<and>
         (observations \<noteq> None \<longrightarrow>
            shaped B ss (posterior_states s ! i) \<and> shaped B ss (posterior_means s ! i) \<and>
            shaped B ss (posterior_std_devs s ! i))))"

text \<open>
  The floor on the standard deviations, as a property of the loop state before
  iteration \<open>k\<close>.
\<close>

definition floors :: "TransitionModel \<Rightarrow> tensor list option \<Rightarrow> nat \<Rightarrow> nat \<Rightarrow> slots \<Rightarrow> bool" where
  "floors m observations T k s =
     (lens T s \<and>
      (\<forall>i. 1 \<le> i \<and> i \<le> k \<longrightarrow>
         (\<forall>v\<in>elems (prior_std_devs s ! i). min_std_dev m \<le> v) \<and>
         (observations \<noteq> None \<longrightarrow> (\<forall>v\<in>elems (posterior_std_devs s ! i). min_std_dev m \<le> v))))"

text \<open>
  The pairing of beliefs and observations, as a property of the loop state before
  iteration \<open>k\<close>: the posterior parameters in slot \<open>i\<close> come from the belief in slot
  \<open>i\<close> and the observation at index \<open>i - 1\<close>.
\<close>

definition aligned :: "TransitionModel \<Rightarrow> tensor list \<Rightarrow> nat \<Rightarrow> nat \<Rightarrow> slots \<Rightarrow> bool" where
  "aligned m obs T k s =
     (lens T s \<and>
      (\<forall>i. 1 \<le> i \<and> i \<le> k \<longrightarrow>
         i - 1 < length obs \<and>
         posterior_params m (beliefs s ! i) (obs ! (i - 1)) =
           Inr (posterior_means s ! i, posterior_std_devs s ! i)))"

text \<open>What \<open>forward\<close> returns from the final slots: every list without its slot 0.\<close>

definition emitted :: "tensor list option \<Rightarrow> slots \<Rightarrow> tensor list list" where
  "emitted observations s =
     map (drop 1) ([beliefs s, prior_states s, prior_means s, prior_std_devs s] @
                   (if observations = None then []
                    else [posterior_states s, posterior_means s, posterior_std_devs s]))"

section \<open>A small instance\<close>

text \<open>
  Concrete layers, for running the definitions: a linear layer of \<open>i\<close> inputs and \<open>n\<close>
  outputs with zero weights and bias \<open>c\<close>, the activation \<open>relu\<close>, and a recurrent cell of
  size \<open>n\<close> with zero weights and biases (both gates are 1/2 and the candidate is 0, so
  the new belief is half the old one). All sizes of the instance are 1.
\<close>

definition linear_const :: "nat \<Rightarrow> nat \<Rightarrow> real \<Rightarrow> tensor \<Rightarrow> error + tensor" where
  "linear_const i n c x = (if ncols x = i then Inr (full (nrows x) n c) else Inl RuntimeError)"

definition relu :: "tensor \<Rightarrow> error + tensor" where
  "relu x = Inr (map_tensor (max 0) x)"

definition gru_zero :: "nat \<Rightarrow> tensor \<Rightarrow> tensor \<Rightarrow> error + tensor" where
  "gru_zero n x h =
     (if ncols x = n \<and> ncols h = n \<and> nrows x = nrows h
      then Inr (map_tensor (\<lambda>v. v / 2) h) else Inl RuntimeError)"

definition tm0 :: TransitionModel where
  "tm0 = \<lparr>act_fn = relu, min_std_dev = 1 / 10,
          fc_embed_state_action = linear_const 2 1 0, rnn = gru_zero 1,
          fc_embed_belief_prior = linear_const 1 1 0, fc_state_prior = linear_const 1 2 0,
          fc_embed_belief_posterior = linear_const 2 1 0,
          fc_state_posterior = linear_const 1 2 0\<rparr>"

definition am0 :: ActionModel where
  "am0 = \<lparr>act_fn_a = relu, fc1 = linear_const 2 1 0, fc2 = linear_const 1 1 0,
          fc3 = linear_const 1 1 0, fc4 = linear_const 1 1 0, fc5 = linear_const 1 2 0,
          min_std = 1 / 10000, init_std = 5, mean_scale = 5\<rparr>"


definition \<xi>1 :: "nat \<Rightarrow> real" where
  "\<xi>1 i = (real i - 1)\<^sup>2"

definition x0 :: tensor where
  "x0 = Tensor 1 [[0]]"

definition \<xi>0 :: "nat \<Rightarrow> real" where
  "\<xi>0 i = 1"

section \<open>Proofs\<close>

subsection \<open>Softplus and the error monad\<close>

lemma softplus_pos: "0 < softplus x"
  by (simp add: softplus_def add_pos_pos)

lemma softplus_inverse: "0 < s \<Longrightarrow> s \<le> 20 \<Longrightarrow> softplus (ln (exp s - 1)) = s"
proof -
  assume s: "0 < s" "s \<le> 20"
  have "ln (exp s - 1) < ln (exp s)"
    using s by (subst ln_less_cancel_iff) auto
  hence "ln (exp s - 1) \<le> 20"
    using s by simp
  thus ?thesis
    using s by (simp add: softplus_def)
qed


lemma bind_e_Inr_iff: "bind_e r f = Inr y \<longleftrightarrow> (\<exists>x. r = Inr x \<and> f x = Inr y)"
  by (cases r) (simp_all add: bind_e_def)

lemma bind_e_Inr [simp]: "bind_e (Inr x) f = f x"
  by (simp add: bind_e_def)

lemma bind_e_Inl [simp]: "bind_e (Inl e) f = Inl e"
  by (simp add: bind_e_def)

subsection \<open>The loop and its body\<close>

text \<open>
  An invariant of the loop is a property of the slots that holds at the start and that
  every successful run of the body keeps.
\<close>

lemma loop_invariant:
  assumes "loop m \<xi> actions obs nt n s0 = Inr s"
    and "I 0 s0"
    and "\<And>k s s'. k < n \<Longrightarrow> I k s \<Longrightarrow> body m \<xi> actions obs nt k s = Inr s' \<Longrightarrow> I (Suc k) s'"
  shows "I n s"
  using assms
proof (induction n arbitrary: s)
  case 0
  then show ?case by simp
next
  case (Suc n)
  from Suc.prems(1) obtain s1 where s1: "loop m \<xi> actions obs nt n s0 = Inr s1"
    and b: "body m \<xi> actions obs nt n s1 = Inr s"
    by (auto simp: bind_e_Inr_iff)
  have "I n s1"
    using s1 Suc.prems(2) Suc.prems(3) by (intro Suc.IH) auto
  then show ?case
    using Suc.prems(3)[of n s1 s] b by simp
qed

lemma dynamics_None:
  assumes "dynamics m \<xi> None t state action s = Inr s'" "lens T s" "t + 1 < T"
  obtains b mean std st p' where
    "next_belief m state action (beliefs s ! t) = Inr b"
    "prior_params m b = Inr (mean, std)"
    "sample_state \<xi> (rng_pos s) mean std = Inr (st, p')"
    "s' = s\<lparr>beliefs := (beliefs s)[t + 1 := b],
            prior_means := (prior_means s)[t + 1 := mean],
            prior_std_devs := (prior_std_devs s)[t + 1 := std],
            prior_states := (prior_states s)[t + 1 := st],
            rng_pos := p'\<rparr>"
  using assms
  by (auto simp: dynamics_def bind_e_Inr_iff Let_def lens_def)

lemma dynamics_Some:
  assumes "dynamics m \<xi> (Some obs) t state action s = Inr s'" "lens T s" "t + 1 < T"
  obtains b mean std st p' ob qmean qstd qst p'' where
    "next_belief m state action (beliefs s ! t) = Inr b"
    "prior_params m b = Inr (mean, std)"
    "sample_state \<xi> (rng_pos s) mean std = Inr (st, p')"
    "index obs (int t) = Inr ob"
    "posterior_params m b ob = Inr (qmean, qstd)"
    "sample_state \<xi> p' qmean qstd = Inr (qst, p'')"
    "s' = s\<lparr>beliefs := (beliefs s)[t + 1 := b],
            prior_means := (prior_means s)[t + 1 := mean],
            prior_std_devs := (prior_std_devs s)[t + 1 := std],
            prior_states := (prior_states s)[t + 1 := st],
            posterior_means := (posterior_means s)[t + 1 := qmean],
            posterior_std_devs := (posterior_std_devs s)[t + 1 := qstd],
            posterior_states := (posterior_states s)[t + 1 := qst],
            rng_pos := p''\<rparr>"
  using assms
  by (auto simp: dynamics_def bind_e_Inr_iff Let_def lens_def)


subsection \<open>Shapes of the library operations\<close>

lemma shaped_Tensor: "shaped B F (Tensor c rs) \<longleftrightarrow> c = F \<and> length rs = B \<and> (\<forall>r\<in>set rs. length r = F)"
  by (auto simp: shaped_def nrows_def list_all_iff)

lemma zip_mem: "(a, b) \<in> set (zip xs ys) \<Longrightarrow> a \<in> set xs \<and> b \<in> set ys"
  by (auto dest: set_zip_leftD set_zip_rightD)

lemma shaped_cat1:
  assumes "shaped B F x" "shaped B G y"
  shows "\<exists>z. cat1 x y = Inr z \<and> shaped B (F + G) z"
  using assms
  by (cases x; cases y) (auto simp: cat1_def shaped_Tensor nrows_def dest!: zip_mem)

lemma shaped_map_tensor: "shaped B F x \<Longrightarrow> shaped B F (map_tensor f x)"
  by (cases x) (auto simp: map_tensor_def shaped_Tensor)

lemma shaped_chunk2:
  assumes "shaped B (2 * S) x"
  shows "\<exists>a b. chunk2 x = Inr (a, b) \<and> shaped B S a \<and> shaped B S b"
  using assms
  by (cases x) (auto simp: chunk2_def shaped_Tensor Let_def)

lemma expand_to_same: "length xs = n \<Longrightarrow> expand_to n xs = xs"
  by (simp add: expand_to_def)

lemma expand_to_single: "length xs = 1 \<Longrightarrow> expand_to n xs = replicate n (hd xs)"
proof -
  assume "length xs = 1"
  then obtain x where xs: "xs = [x]" by (cases xs) auto
  have "concat (replicate n [x]) = replicate n x" by (induction n) auto
  then show ?thesis using xs by (auto simp: expand_to_def)
qed

lemma bdim_same [simp]: "bdim a a = Some a"
  by (simp add: bdim_def)

lemma bdim_one [simp]: "bdim a 1 = Some a" "bdim a (Suc 0) = Some a"
  by (auto simp: bdim_def)

lemma binop_same_shape:
  assumes "shaped B F x" "shaped B F y"
  shows "binop f x y = Inr (Tensor F (map2 (\<lambda>r q. map2 f r q) (rows x) (rows y)))"
proof -
  have "map2 (\<lambda>r q. map2 f (expand_to F r) (expand_to F q)) (rows x) (rows y)
      = map2 (\<lambda>r q. map2 f r q) (rows x) (rows y)"
    using assms by (intro map_cong refl) (auto simp: expand_to_same shaped_def list_all_iff dest!: zip_mem)
  then show ?thesis
    using assms by (simp add: binop_def shaped_def nrows_def expand_to_same)
qed

lemma shaped_binop_same:
  assumes "shaped B F x" "shaped B F y"
  shows "\<exists>z. binop f x y = Inr z \<and> shaped B F z"
  using assms binop_same_shape[OF assms, of f]
  by (auto simp: shaped_Tensor shaped_def nrows_def list_all_iff set_zip)

lemma mul_mask:
  assumes "shaped B S x" "shaped B 1 y"
  shows "mul x y = Inr (Tensor S (map2 (\<lambda>r q. map (\<lambda>u. u * hd q) r) (rows x) (rows y)))"
proof -
  have "map2 (\<lambda>r q. map2 (\<lambda>a b. a * b) (expand_to S r) (expand_to S q)) (rows x) (rows y)
      = map2 (\<lambda>r q. map (\<lambda>u. u * hd q) r) (rows x) (rows y)"
  proof (intro map_cong refl)
    fix z assume z: "z \<in> set (zip (rows x) (rows y))"
    obtain r q where rq: "z = (r, q)" by (cases z)
    have lr: "length r = S" and lq: "length q = 1"
      using z rq assms by (auto simp: shaped_def list_all_iff dest!: zip_mem)
    have "map2 (\<lambda>a b. a * b) r (replicate S (hd q)) = map (\<lambda>u. u * hd q) r"
      using lr by (intro nth_equalityI) auto
    then show "(case z of (r, q) \<Rightarrow> map2 (\<lambda>a b. a * b) (expand_to S r) (expand_to S q))
             = (case z of (r, q) \<Rightarrow> map (\<lambda>u. u * hd q) r)"
      using rq lr lq by (simp add: expand_to_same expand_to_single)
  qed
  then show ?thesis
    using assms by (simp add: mul_def binop_def shaped_def nrows_def expand_to_same)
qed

lemma shaped_mul_mask:
  assumes "shaped B S x" "shaped B 1 y"
  shows "\<exists>z. mul x y = Inr z \<and> shaped B S z"
  using assms mul_mask[OF assms]
  by (auto simp: shaped_Tensor shaped_def nrows_def list_all_iff set_zip)

lemma rows_full [simp]: "rows (full B F v) = replicate B (replicate F v)"
  by (simp add: full_def)

lemma shaped_full [simp]: "shaped B F (full B F v)"
  by (simp add: full_def shaped_Tensor)


lemma shaped_randn_like: "shaped B F x \<Longrightarrow> shaped B F (fst (randn_like \<xi> p x))"
  by (auto simp: randn_like_def shaped_def nrows_def list_all_iff)

lemma shaped_sample_state:
  assumes "shaped B S mean" "shaped B S std"
  shows "\<exists>st. sample_state \<xi> p mean std = Inr (st, p + B * S) \<and> shaped B S st"
proof -
  obtain noise p' where n: "randn_like \<xi> p mean = (noise, p')" by (cases "randn_like \<xi> p mean")
  have sn: "shaped B S noise" using shaped_randn_like[OF assms(1), of \<xi> p] n by simp
  have p': "p' = p + B * S" using n assms(1) by (auto simp: randn_like_def shaped_def)
  obtain sc where sc: "mul std noise = Inr sc" "shaped B S sc"
    using shaped_binop_same[OF assms(2) sn] by (auto simp: mul_def)
  obtain st where st: "add mean sc = Inr st" "shaped B S st"
    using shaped_binop_same[OF assms(1) sc(2)] by (auto simp: add_def)
  show ?thesis using n sc st p' by (simp add: sample_state_def)
qed


subsection \<open>A well-shaped model never raises\<close>

text \<open>
  For a well-shaped model and well-shaped inputs every step of the loop succeeds and
  keeps the shapes of the slots; with at least one action the final stacking succeeds.
\<close>

lemma layer_okD: "layer_ok f B i n \<Longrightarrow> shaped B i x \<Longrightarrow> \<exists>y. f x = Inr y \<and> shaped B n y"
  by (simp add: layer_ok_def)

lemma cell_okD: "cell_ok f B n \<Longrightarrow> shaped B n x \<Longrightarrow> shaped B n h \<Longrightarrow> \<exists>y. f x h = Inr y \<and> shaped B n y"
  by (simp add: cell_ok_def)

lemma next_belief_total:
  assumes "model_ok m B bs ss acs hs es" "shaped B ss st" "shaped B acs a" "shaped B bs b"
  shows "\<exists>b'. next_belief m st a b = Inr b' \<and> shaped B bs b'"
proof -
  obtain x where x: "cat1 st a = Inr x" "shaped B (ss + acs) x"
    using shaped_cat1[OF assms(2,3)] by auto
  obtain h where h: "fc_embed_state_action m x = Inr h" "shaped B bs h"
    using assms(1) x(2) by (auto simp: model_ok_def dest: layer_okD)
  obtain hid where hid: "act_fn m h = Inr hid" "shaped B bs hid"
    using assms(1) h(2) by (auto simp: model_ok_def dest: layer_okD)
  obtain b' where "rnn m hid b = Inr b'" "shaped B bs b'"
    using assms(1,4) hid(2) by (auto simp: model_ok_def dest: cell_okD)
  then show ?thesis using x h hid by (simp add: next_belief_def)
qed

lemma prior_params_total:
  assumes "model_ok m B bs ss acs hs es" "shaped B bs b"
  shows "\<exists>mean std. prior_params m b = Inr (mean, std) \<and> shaped B ss mean \<and> shaped B ss std"
proof -
  obtain h where h: "fc_embed_belief_prior m b = Inr h" "shaped B hs h"
    using assms by (auto simp: model_ok_def dest: layer_okD)
  obtain hid where hid: "act_fn m h = Inr hid" "shaped B hs hid"
    using assms(1) h(2) by (auto simp: model_ok_def dest: layer_okD)
  obtain out where out: "fc_state_prior m hid = Inr out" "shaped B (2 * ss) out"
    using assms(1) hid(2) by (auto simp: model_ok_def dest: layer_okD)
  obtain mean raw where c: "chunk2 out = Inr (mean, raw)" "shaped B ss mean" "shaped B ss raw"
    using shaped_chunk2[OF out(2)] by auto
  show ?thesis using h hid out c by (simp add: prior_params_def shaped_map_tensor)
qed

lemma posterior_params_total:
  assumes "model_ok m B bs ss acs hs es" "shaped B bs b" "shaped B es ob"
  shows "\<exists>mean std. posterior_params m b ob = Inr (mean, std) \<and> shaped B ss mean \<and> shaped B ss std"
proof -
  obtain x where x: "cat1 b ob = Inr x" "shaped B (bs + es) x"
    using shaped_cat1[OF assms(2,3)] by auto
  obtain h where h: "fc_embed_belief_posterior m x = Inr h" "shaped B hs h"
    using assms(1) x(2) by (auto simp: model_ok_def dest: layer_okD)
  obtain hid where hid: "act_fn m h = Inr hid" "shaped B hs hid"
    using assms(1) h(2) by (auto simp: model_ok_def dest: layer_okD)
  obtain out where out: "fc_state_posterior m hid = Inr out" "shaped B (2 * ss) out"
    using assms(1) hid(2) by (auto simp: model_ok_def dest: layer_okD)
  obtain mean raw where c: "chunk2 out = Inr (mean, raw)" "shaped B ss mean" "shaped B ss raw"
    using shaped_chunk2[OF out(2)] by auto
  show ?thesis using x h hid out c by (simp add: posterior_params_def shaped_map_tensor)
qed

lemma index_nat: "t < length xs \<Longrightarrow> index xs (int t) = Inr (xs ! t)"
  by (simp add: index_def)

lemma index_nat_Inr: "index xs (int t) = Inr x \<Longrightarrow> t < length xs \<and> x = xs ! t"
  by (auto simp: index_def split: if_splits)


lemma slots_ok_update_None:
  assumes ok: "slots_ok B bs ss T None k s" and k: "Suc k < T"
    and sh: "shaped B bs b" "shaped B ss mean" "shaped B ss std" "shaped B ss st"
  shows "slots_ok B bs ss T None (Suc k)
           (s\<lparr>beliefs := (beliefs s)[Suc k := b],
              prior_means := (prior_means s)[Suc k := mean],
              prior_std_devs := (prior_std_devs s)[Suc k := std],
              prior_states := (prior_states s)[Suc k := st],
              rng_pos := p\<rparr>)"
  using assms
  by (auto simp: slots_ok_def lens_def nth_list_update)

lemma slots_ok_update_Some:
  assumes ok: "slots_ok B bs ss T (Some obs) k s" and k: "Suc k < T"
    and sh: "shaped B bs b" "shaped B ss mean" "shaped B ss std" "shaped B ss st"
            "shaped B ss qmean" "shaped B ss qstd" "shaped B ss qst"
  shows "slots_ok B bs ss T (Some obs) (Suc k)
           (s\<lparr>beliefs := (beliefs s)[Suc k := b],
              prior_means := (prior_means s)[Suc k := mean],
              prior_std_devs := (prior_std_devs s)[Suc k := std],
              prior_states := (prior_states s)[Suc k := st],
              posterior_means := (posterior_means s)[Suc k := qmean],
              posterior_std_devs := (posterior_std_devs s)[Suc k := qstd],
              posterior_states := (posterior_states s)[Suc k := qst],
              rng_pos := p\<rparr>)"
  using assms
  by (auto simp: slots_ok_def lens_def nth_list_update)

lemma dynamics_total:
  assumes m: "model_ok m B bs ss acs hs es"
    and ok: "slots_ok B bs ss T observations k s" and k: "Suc k < T"
    and st: "shaped B ss st" and a: "shaped B acs a"
    and obs: "case observations of None \<Rightarrow> True | Some obs \<Rightarrow> k < length obs \<and> list_all (shaped B es) obs"
  shows "\<exists>s'. dynamics m \<xi> observations k st a s = Inr s' \<and> slots_ok B bs ss T observations (Suc k) s'"
proof -
  have len: "lens T s" using ok by (simp add: slots_ok_def)
  have bk: "shaped B bs (beliefs s ! k)"
    using ok by (cases k) (auto simp: slots_ok_def)
  obtain b where b: "next_belief m st a (beliefs s ! k) = Inr b" "shaped B bs b"
    using next_belief_total[OF m st a bk] by auto
  obtain mean std where pp: "prior_params m b = Inr (mean, std)" "shaped B ss mean" "shaped B ss std"
    using prior_params_total[OF m b(2)] by auto
  obtain pst where pst: "sample_state \<xi> (rng_pos s) mean std = Inr (pst, rng_pos s + B * ss)" "shaped B ss pst"
    using shaped_sample_state[OF pp(2,3)] by auto
  show ?thesis
  proof (cases observations)
    case None
    have "dynamics m \<xi> None k st a s = Inr (s\<lparr>beliefs := (beliefs s)[Suc k := b],
              prior_means := (prior_means s)[Suc k := mean],
              prior_std_devs := (prior_std_devs s)[Suc k := std],
              prior_states := (prior_states s)[Suc k := pst],
              rng_pos := rng_pos s + B * ss\<rparr>)"
      using b pp pst len k by (simp add: dynamics_def lens_def)
    then show ?thesis
      using slots_ok_update_None[OF ok[unfolded None] k b(2) pp(2,3) pst(2)] None by auto
  next
    case (Some os)
    have kl: "k < length os" and osh: "shaped B es (os ! k)"
      using obs Some by (auto simp: list_all_length)
    obtain qmean qstd where qp: "posterior_params m b (os ! k) = Inr (qmean, qstd)"
        "shaped B ss qmean" "shaped B ss qstd"
      using posterior_params_total[OF m b(2) osh] by auto
    obtain qst where qst: "sample_state \<xi> (rng_pos s + B * ss) qmean qstd = Inr (qst, rng_pos s + B * ss + B * ss)" "shaped B ss qst"
      using shaped_sample_state[OF qp(2,3)] by auto
    have "dynamics m \<xi> (Some os) k st a s = Inr (s\<lparr>beliefs := (beliefs s)[Suc k := b],
              prior_means := (prior_means s)[Suc k := mean],
              prior_std_devs := (prior_std_devs s)[Suc k := std],
              prior_states := (prior_states s)[Suc k := pst],
              posterior_means := (posterior_means s)[Suc k := qmean],
              posterior_std_devs := (posterior_std_devs s)[Suc k := qstd],
              posterior_states := (posterior_states s)[Suc k := qst],
              rng_pos := rng_pos s + B * ss + B * ss\<rparr>)"
      using b pp pst qp qst len k kl by (simp add: dynamics_def lens_def index_nat)
    then show ?thesis
      using slots_ok_update_Some[OF ok[unfolded Some] k b(2) pp(2,3) pst(2) qp(2,3) qst(2)] Some by auto
  qed
qed

lemma select_state_shaped:
  assumes "slots_ok B bs ss T observations k s"
  shows "shaped B ss (select_state observations s k)"
  using assms by (cases k) (auto simp: slots_ok_def select_state_def)

lemma mask_state_total:
  assumes "shaped B ss st"
    and "case nonterminals of None \<Rightarrow> True | Some nt \<Rightarrow> k < length nt \<and> list_all (shaped B 1) nt"
  shows "\<exists>st'. mask_state nonterminals k st = Inr st' \<and> shaped B ss st'"
proof (cases nonterminals)
  case None
  then show ?thesis using assms by (simp add: mask_state_def)
next
  case (Some nt)
  then have "k < length nt" "shaped B 1 (nt ! k)"
    using assms(2) by (auto simp: list_all_length)
  then show ?thesis
    using shaped_mul_mask[OF assms(1), of "nt ! k"] Some by (auto simp: mask_state_def index_nat)
qed

lemma body_total:
  assumes m: "model_ok m B bs ss acs hs es"
    and i: "inputs_ok B bs ss acs es prev_state actions prev_belief observations nonterminals"
    and ok: "slots_ok B bs ss T observations k s"
    and k: "k < length actions" and T: "T = length actions + 1"
  shows "\<exists>s'. body m \<xi> actions observations nonterminals k s = Inr s' \<and>
              slots_ok B bs ss T observations (Suc k) s'"
proof -
  have "case nonterminals of None \<Rightarrow> True | Some nt \<Rightarrow> k < length nt \<and> list_all (shaped B 1) nt"
    using i k by (auto simp: inputs_ok_def split: option.splits)
  then obtain st where st: "mask_state nonterminals k (select_state observations s k) = Inr st"
      "shaped B ss st"
    using mask_state_total[OF select_state_shaped[OF ok]] by blast
  have a: "index actions (int k) = Inr (actions ! k)" "shaped B acs (actions ! k)"
    using i k by (auto simp: inputs_ok_def index_nat list_all_length)
  have o: "case observations of None \<Rightarrow> True | Some obs \<Rightarrow> k < length obs \<and> list_all (shaped B es) obs"
    using i k by (auto simp: inputs_ok_def split: option.splits)
  have "Suc k < T" using k T by simp
  from dynamics_total[OF m ok this st(2) a(2) o, of \<xi>] show ?thesis
    using st a by (simp add: body_def)
qed

lemma loop_total:
  assumes m: "model_ok m B bs ss acs hs es"
    and i: "inputs_ok B bs ss acs es prev_state actions prev_belief observations nonterminals"
    and ok: "slots_ok B bs ss T observations 0 s0"
    and T: "T = length actions + 1"
  shows "k \<le> length actions \<Longrightarrow>
     \<exists>s. loop m \<xi> actions observations nonterminals k s0 = Inr s \<and> slots_ok B bs ss T observations k s"
proof (induction k)
  case 0
  then show ?case using ok by simp
next
  case (Suc k)
  then obtain s where s: "loop m \<xi> actions observations nonterminals k s0 = Inr s"
      "slots_ok B bs ss T observations k s"
    by auto
  from body_total[OF m i s(2) _ T, of \<xi>] Suc.prems show ?case
    using s by simp
qed


lemma init_slots_lens: "lens T (init_slots T p prev_state prev_belief)"
  by (simp add: lens_def init_slots_def)

lemma init_slots_ok:
  assumes "shaped B ss prev_state" "shaped B bs prev_belief" "0 < T"
  shows "slots_ok B bs ss T observations 0 (init_slots T p prev_state prev_belief)"
  using assms by (simp add: slots_ok_def init_slots_lens) (simp add: init_slots_def)

lemma dynamics_lens:
  assumes "dynamics m \<xi> observations t st a s = Inr s'" "lens T s"
  shows "lens T s'"
  using assms
  by (cases observations) (auto simp: dynamics_def bind_e_Inr_iff Let_def lens_def)

lemma body_lens:
  assumes "body m \<xi> actions observations nonterminals t s = Inr s'" "lens T s"
  shows "lens T s'"
  using assms by (auto simp: body_def bind_e_Inr_iff dest: dynamics_lens)

lemma loop_lens:
  assumes "loop m \<xi> actions observations nonterminals n s0 = Inr s" "lens T s0"
  shows "lens T s"
  by (rule loop_invariant[OF assms(1), where I = "\<lambda>k. lens T"]) (auto intro: assms(2) body_lens)

lemma stack_Inr: "stack ts = Inr us \<Longrightarrow> us = ts \<and> ts \<noteq> []"
  by (auto simp: stack_def split: if_splits)

lemma stack_shaped:
  assumes "ts \<noteq> []" "\<forall>t\<in>set ts. shaped B F t"
  shows "stack ts = Inr ts"
  using assms by (cases ts) (auto simp: stack_def shaped_def list_all_iff)

lemma stack_hidden_Inr:
  assumes "stack_hidden observations s = Inr hidden"
  shows "hidden = emitted observations s"
  using assms
  by (auto simp: stack_hidden_def emitted_def bind_e_Inr_iff Let_def dest!: stack_Inr split: if_splits)

lemma forward_Inr:
  assumes "forward m \<xi> p prev_state actions prev_belief observations nonterminals = Inr hidden"
  obtains s where
    "loop m \<xi> actions observations nonterminals (length actions)
       (init_slots (length actions + 1) p prev_state prev_belief) = Inr s"
    "lens (length actions + 1) s"
    "hidden = emitted observations s"
proof -
  from assms obtain s where s: "loop m \<xi> actions observations nonterminals (length actions)
       (init_slots (length actions + 1) p prev_state prev_belief) = Inr s"
    and h: "stack_hidden observations s = Inr hidden"
    by (auto simp: forward_def bind_e_Inr_iff)
  show ?thesis
    using that[OF s loop_lens[OF s init_slots_lens] stack_hidden_Inr[OF h]] .
qed

lemma drop1_shaped:
  assumes "length xs = Suc N" "\<forall>i. 1 \<le> i \<and> i \<le> N \<longrightarrow> P (xs ! i)"
  shows "\<forall>x\<in>set (drop 1 xs). P x"
proof
  fix x assume "x \<in> set (drop 1 xs)"
  then obtain j where "j < length (drop 1 xs)" "x = drop 1 xs ! j"
    by (auto simp: in_set_conv_nth)
  then show "P x" using assms by auto
qed

lemma stack_hidden_total:
  assumes ok: "slots_ok B bs ss (Suc N) observations N s" and N: "0 < N"
  shows "stack_hidden observations s = Inr (emitted observations s)"
proof -
  have len: "lens (Suc N) s" using ok by (simp add: slots_ok_def)
  have ne: "drop 1 (beliefs s) \<noteq> []" "drop 1 (prior_states s) \<noteq> []" "drop 1 (prior_means s) \<noteq> []"
    "drop 1 (prior_std_devs s) \<noteq> []" "drop 1 (posterior_states s) \<noteq> []"
    "drop 1 (posterior_means s) \<noteq> []" "drop 1 (posterior_std_devs s) \<noteq> []"
    using len N by (auto simp: lens_def)
  have a: "stack (drop 1 (beliefs s)) = Inr (drop 1 (beliefs s))"
    using ok len by (intro stack_shaped[OF ne(1), of B bs] drop1_shaped[of _ N]) (auto simp: slots_ok_def lens_def)
  have b: "stack (drop 1 (prior_states s)) = Inr (drop 1 (prior_states s))"
    using ok len by (intro stack_shaped[OF ne(2), of B ss] drop1_shaped[of _ N]) (auto simp: slots_ok_def lens_def)
  have c: "stack (drop 1 (prior_means s)) = Inr (drop 1 (prior_means s))"
    using ok len by (intro stack_shaped[OF ne(3), of B ss] drop1_shaped[of _ N]) (auto simp: slots_ok_def lens_def)
  have d: "stack (drop 1 (prior_std_devs s)) = Inr (drop 1 (prior_std_devs s))"
    using ok len by (intro stack_shaped[OF ne(4), of B ss] drop1_shaped[of _ N]) (auto simp: slots_ok_def lens_def)
  show ?thesis
  proof (cases observations)
    case None
    then show ?thesis using a b c d by (simp add: stack_hidden_def emitted_def)
  next
    case (Some obs)
    have e: "stack (drop 1 (posterior_states s)) = Inr (drop 1 (posterior_states s))"
      using ok len Some by (intro stack_shaped[OF ne(5), of B ss] drop1_shaped[of _ N]) (auto simp: slots_ok_def lens_def)
    have f: "stack (drop 1 (posterior_means s)) = Inr (drop 1 (posterior_means s))"
      using ok len Some by (intro stack_shaped[OF ne(6), of B ss] drop1_shaped[of _ N]) (auto simp: slots_ok_def lens_def)
    have g: "stack (drop 1 (posterior_std_devs s)) = Inr (drop 1 (posterior_std_devs s))"
      using ok len Some by (intro stack_shaped[OF ne(7), of B ss] drop1_shaped[of _ N]) (auto simp: slots_ok_def lens_def)
    show ?thesis using a b c d e f g Some by (simp add: stack_hidden_def emitted_def)
  qed
qed

lemma forward_total:
  assumes m: "model_ok m B bs ss acs hs es"
    and i: "inputs_ok B bs ss acs es prev_state actions prev_belief observations nonterminals"
    and ne: "actions \<noteq> []"
  shows "\<exists>s. loop m \<xi> actions observations nonterminals (length actions)
              (init_slots (length actions + 1) p prev_state prev_belief) = Inr s \<and>
             slots_ok B bs ss (length actions + 1) observations (length actions) s \<and>
             forward m \<xi> p prev_state actions prev_belief observations nonterminals
               = Inr (emitted observations s)"
proof -
  have ok0: "slots_ok B bs ss (length actions + 1) observations 0
               (init_slots (length actions + 1) p prev_state prev_belief)"
    using i by (intro init_slots_ok) (auto simp: inputs_ok_def)
  obtain s where s: "loop m \<xi> actions observations nonterminals (length actions)
              (init_slots (length actions + 1) p prev_state prev_belief) = Inr s"
      "slots_ok B bs ss (length actions + 1) observations (length actions) s"
    using loop_total[OF m i ok0 refl, of "length actions" \<xi>] by auto
  have "stack_hidden observations s = Inr (emitted observations s)"
    using stack_hidden_total[of B bs ss "length actions" observations s] s(2) ne by simp
  then show ?thesis using s by (auto simp: forward_def)
qed

subsection \<open>The small instance is well-shaped\<close>

lemma layer_ok_linear_const: "layer_ok (linear_const i n c) B i n"
  by (auto simp: layer_ok_def linear_const_def shaped_def full_def nrows_def list_all_iff)

lemma layer_ok_relu: "layer_ok relu B n n"
  by (simp add: layer_ok_def relu_def shaped_map_tensor)

lemma cell_ok_gru_zero: "cell_ok (gru_zero n) B n"
  by (auto simp: cell_ok_def gru_zero_def shaped_map_tensor) (auto simp: shaped_def)

lemma tm0_ok: "model_ok tm0 1 1 1 1 1 1"
  using layer_ok_linear_const[of 2 1 0 1] layer_ok_linear_const[of 1 1 0 1] layer_ok_linear_const[of 1 2 0 1]
     layer_ok_relu[of 1 1] cell_ok_gru_zero[of 1 1]
  by (simp add: model_ok_def tm0_def numeral_2_eq_2)

lemma shaped_x0: "shaped 1 1 x0"
  by (simp add: x0_def shaped_def nrows_def)


subsection \<open>The floor on the standard deviations\<close>

lemma elems_map_tensor: "elems (map_tensor f x) = f ` elems x"
  by (auto simp: elems_def map_tensor_def)

lemma set_expand_to: "set (expand_to n xs) \<subseteq> set xs"
  by (auto simp: expand_to_def)

lemma elems_binop:
  assumes "binop f x y = Inr z" "v \<in> elems z"
  shows "\<exists>a\<in>elems x. \<exists>b\<in>elems y. v = f a b"
proof -
  obtain b c where z: "z = Tensor c (map2 (\<lambda>r q. map2 f (expand_to c r) (expand_to c q))
                              (expand_to b (rows x)) (expand_to b (rows y)))"
    using assms(1) by (auto simp: binop_def split: option.splits)
  from assms(2) z obtain r q where rq: "(r, q) \<in> set (zip (expand_to b (rows x)) (expand_to b (rows y)))"
      and v: "v \<in> set (map2 f (expand_to c r) (expand_to c q))"
    by (auto simp: elems_def)
  from v obtain u w where uw: "(u, w) \<in> set (zip (expand_to c r) (expand_to c q))" "v = f u w"
    by auto
  have "r \<in> set (rows x)" "q \<in> set (rows y)"
    using rq set_expand_to[of b "rows x"] set_expand_to[of b "rows y"] by (auto dest!: zip_mem)
  moreover have "u \<in> set r" "w \<in> set q"
    using uw(1) set_expand_to[of c r] set_expand_to[of c q] by (auto dest!: zip_mem)
  ultimately show ?thesis using uw(2) by (auto simp: elems_def)
qed

lemma prior_params_floor:
  assumes "prior_params m b = Inr (mean, std)" "v \<in> elems std"
  shows "min_std_dev m \<le> v"
proof -
  from assms(1) obtain raw where "std = map_tensor (\<lambda>v. softplus v + min_std_dev m) raw"
    by (auto simp: prior_params_def bind_e_Inr_iff)
  then obtain u where "v = softplus u + min_std_dev m"
    using assms(2) by (auto simp: elems_map_tensor)
  then show ?thesis using softplus_pos[of u] by simp
qed

lemma posterior_params_floor:
  assumes "posterior_params m b ob = Inr (mean, std)" "v \<in> elems std"
  shows "min_std_dev m \<le> v"
proof -
  from assms(1) obtain raw where "std = map_tensor (\<lambda>v. softplus v + min_std_dev m) raw"
    by (auto simp: posterior_params_def bind_e_Inr_iff)
  then obtain u where "v = softplus u + min_std_dev m"
    using assms(2) by (auto simp: elems_map_tensor)
  then show ?thesis using softplus_pos[of u] by simp
qed

lemma body_Inr:
  assumes "body m \<xi> actions observations nonterminals t s = Inr s'"
  obtains st a where
    "mask_state nonterminals t (select_state observations s t) = Inr st"
    "index actions (int t) = Inr a"
    "dynamics m \<xi> observations t st a s = Inr s'"
  using assms by (auto simp: body_def bind_e_Inr_iff)

lemma body_floors:
  assumes b: "body m \<xi> actions observations nonterminals k s = Inr s'"
    and f: "floors m observations T k s" and k: "Suc k < T"
  shows "floors m observations T (Suc k) s'"
proof -
  have len: "lens T s" using f by (simp add: floors_def)
  from b obtain st a where d: "dynamics m \<xi> observations k st a s = Inr s'"
    by (rule body_Inr)
  show ?thesis
  proof (cases observations)
    case None
    from d[unfolded None] len obtain b mean std pst p' where
      pp: "prior_params m b = Inr (mean, std)" and
      s': "s' = s\<lparr>beliefs := (beliefs s)[k + 1 := b],
            prior_means := (prior_means s)[k + 1 := mean],
            prior_std_devs := (prior_std_devs s)[k + 1 := std],
            prior_states := (prior_states s)[k + 1 := pst],
            rng_pos := p'\<rparr>"
      using k by (elim dynamics_None[where T = T]) auto
    show ?thesis
      using f len k prior_params_floor[OF pp] None
      by (auto simp: floors_def lens_def s' nth_list_update)
  next
    case (Some obs)
    from d[unfolded Some] len obtain b mean std pst ob qmean qstd qst p'' where
      pp: "prior_params m b = Inr (mean, std)" and
      qp: "posterior_params m b ob = Inr (qmean, qstd)" and
      s': "s' = s\<lparr>beliefs := (beliefs s)[k + 1 := b],
            prior_means := (prior_means s)[k + 1 := mean],
            prior_std_devs := (prior_std_devs s)[k + 1 := std],
            prior_states := (prior_states s)[k + 1 := pst],
            posterior_means := (posterior_means s)[k + 1 := qmean],
            posterior_std_devs := (posterior_std_devs s)[k + 1 := qstd],
            posterior_states := (posterior_states s)[k + 1 := qst],
            rng_pos := p''\<rparr>"
      using k by (elim dynamics_Some[where T = T]) auto
    show ?thesis
      using f len k prior_params_floor[OF pp] posterior_params_floor[OF qp]
      by (auto simp: floors_def lens_def s' nth_list_update)
  qed
qed

lemma forward_floors:
  assumes "forward m \<xi> p prev_state actions prev_belief observations nonterminals = Inr hidden"
  shows "(\<forall>x\<in>set (hidden ! 3). \<forall>v\<in>elems x. min_std_dev m \<le> v) \<and>
         (observations \<noteq> None \<longrightarrow> (\<forall>x\<in>set (hidden ! 6). \<forall>v\<in>elems x. min_std_dev m \<le> v))"
proof -
  let ?N = "length actions"
  from forward_Inr[OF assms] obtain s where
    l: "loop m \<xi> actions observations nonterminals ?N (init_slots (?N + 1) p prev_state prev_belief) = Inr s"
    and len: "lens (?N + 1) s" and h: "hidden = emitted observations s"
    by blast
  have "floors m observations (?N + 1) ?N s"
  proof (rule loop_invariant[OF l, where I = "floors m observations (?N + 1)"])
    show "floors m observations (?N + 1) 0 (init_slots (?N + 1) p prev_state prev_belief)"
      by (simp add: floors_def init_slots_lens)
  next
    fix k s s'
    assume "k < ?N" "floors m observations (?N + 1) k s"
      "body m \<xi> actions observations nonterminals k s = Inr s'"
    then show "floors m observations (?N + 1) (Suc k) s'"
      by (intro body_floors) auto
  qed
  then have a: "\<forall>i. 1 \<le> i \<and> i \<le> ?N \<longrightarrow> (\<forall>v\<in>elems (prior_std_devs s ! i). min_std_dev m \<le> v)"
    and b: "observations \<noteq> None \<Longrightarrow>
            \<forall>i. 1 \<le> i \<and> i \<le> ?N \<longrightarrow> (\<forall>v\<in>elems (posterior_std_devs s ! i). min_std_dev m \<le> v)"
    by (auto simp: floors_def)
  have "\<forall>x\<in>set (drop 1 (prior_std_devs s)). \<forall>v\<in>elems x. min_std_dev m \<le> v"
    using len by (intro drop1_shaped[of _ ?N] a) (simp add: lens_def)
  moreover have "observations \<noteq> None \<Longrightarrow>
      \<forall>x\<in>set (drop 1 (posterior_std_devs s)). \<forall>v\<in>elems x. min_std_dev m \<le> v"
    using len by (intro drop1_shaped[of _ ?N] b) (simp_all add: lens_def)
  ultimately show ?thesis
    using h by (auto simp: emitted_def)
qed

lemma forward_action_floor:
  assumes "ActionModel_forward m belief state training = Inr sd"
  shows "\<exists>loc scale. sd_dist sd = Independent (TransformedDistribution (Normal loc scale) [TanhTransform]) 1 \<and>
           (\<forall>v\<in>elems scale. min_std m \<le> v)"
proof -
  from assms obtain mean raw where raw: "policy_raw m belief state = Inr (mean, raw)"
    by (auto simp: ActionModel_forward_def bind_e_Inr_iff)
  obtain mean' std' where sq: "squash m mean raw = (mean', std')"
    by (cases "squash m mean raw")
  from assms raw sq obtain loc scale where
    scale: "binop (\<lambda>a b. b) mean' std' = Inr scale" and
    sd: "sd = \<lparr>sd_dist = Independent (TransformedDistribution (Normal loc scale) [TanhTransform]) 1, sd_samples = 100\<rparr>"
    by (auto simp: ActionModel_forward_def bind_e_Inr_iff Normal_init_def SampleDist_init_def)
  have "min_std m \<le> v" if "v \<in> elems scale" for v
  proof -
    from elems_binop[OF scale that] have "v \<in> elems std'" by auto
    then obtain u where "v = softplus (u + ln (exp (init_std m) - 1)) + min_std m"
      using sq by (auto simp: squash_def elems_map_tensor)
    then show ?thesis using softplus_pos[of "u + ln (exp (init_std m) - 1)"] by simp
  qed
  then show ?thesis using sd by auto
qed


subsection \<open>Beliefs and observations\<close>

lemma body_aligned:
  assumes b: "body m \<xi> actions (Some obs) nonterminals k s = Inr s'"
    and f: "aligned m obs T k s" and k: "Suc k < T"
  shows "aligned m obs T (Suc k) s'"
proof -
  have len: "lens T s" using f by (simp add: aligned_def)
  from b obtain st a where d: "dynamics m \<xi> (Some obs) k st a s = Inr s'"
    by (rule body_Inr)
  from d len obtain b mean std pst ob qmean qstd qst p'' where
    ob: "index obs (int k) = Inr ob" and
    qp: "posterior_params m b ob = Inr (qmean, qstd)" and
    s': "s' = s\<lparr>beliefs := (beliefs s)[k + 1 := b],
          prior_means := (prior_means s)[k + 1 := mean],
          prior_std_devs := (prior_std_devs s)[k + 1 := std],
          prior_states := (prior_states s)[k + 1 := pst],
          posterior_means := (posterior_means s)[k + 1 := qmean],
          posterior_std_devs := (posterior_std_devs s)[k + 1 := qstd],
          posterior_states := (posterior_states s)[k + 1 := qst],
          rng_pos := p''\<rparr>"
    using k by (elim dynamics_Some[where T = T]) auto
  have obk: "k < length obs" "ob = obs ! k"
    using index_nat_Inr[OF ob] by auto
  show ?thesis
    using f len k qp obk
    by (auto simp: aligned_def lens_def s' nth_list_update)
qed

lemma forward_aligned:
  assumes fw: "forward m \<xi> p prev_state actions prev_belief (Some obs) nonterminals = Inr hidden"
    and t: "t < length actions"
  shows "t < length obs \<and>
         posterior_params m (hidden ! 0 ! t) (obs ! t) = Inr (hidden ! 5 ! t, hidden ! 6 ! t)"
proof -
  let ?N = "length actions"
  from forward_Inr[OF fw] obtain s where
    l: "loop m \<xi> actions (Some obs) nonterminals ?N (init_slots (?N + 1) p prev_state prev_belief) = Inr s"
    and len: "lens (?N + 1) s" and h: "hidden = emitted (Some obs) s"
    by blast
  have "aligned m obs (?N + 1) ?N s"
  proof (rule loop_invariant[OF l, where I = "aligned m obs (?N + 1)"])
    show "aligned m obs (?N + 1) 0 (init_slots (?N + 1) p prev_state prev_belief)"
      by (simp add: aligned_def init_slots_lens)
  next
    fix k s s'
    assume "k < ?N" "aligned m obs (?N + 1) k s"
      "body m \<xi> actions (Some obs) nonterminals k s = Inr s'"
    then show "aligned m obs (?N + 1) (Suc k) s'"
      by (intro body_aligned) auto
  qed
  then have "\<forall>i. 1 \<le> i \<and> i \<le> ?N \<longrightarrow>
         i - 1 < length obs \<and>
         posterior_params m (beliefs s ! i) (obs ! (i - 1)) =
           Inr (posterior_means s ! i, posterior_std_devs s ! i)"
    by (simp add: aligned_def)
  from this[rule_format, of "t + 1"] t have a: "t < length obs"
     "posterior_params m (beliefs s ! (t + 1)) (obs ! t) =
           Inr (posterior_means s ! (t + 1), posterior_std_devs s ! (t + 1))"
    by auto
  have "hidden ! 0 ! t = beliefs s ! (t + 1)" "hidden ! 5 ! t = posterior_means s ! (t + 1)"
     "hidden ! 6 ! t = posterior_std_devs s ! (t + 1)"
    using h len t by (simp_all add: emitted_def lens_def numeral_eq_Suc)
  then show ?thesis using a by simp
qed

subsection \<open>Masks\<close>



lemma dynamics_belief:
  assumes "dynamics m \<xi> observations t st a s = Inr s'"
  shows "\<exists>b. next_belief m st a (beliefs s ! t) = Inr b \<and> beliefs s' = (beliefs s)[t + 1 := b]"
  using assms
  by (cases observations) (auto simp: dynamics_def bind_e_Inr_iff Let_def)

lemma mask_zero_row:
  assumes x: "shaped B ss x" and y: "shaped B 1 y" and b: "b < B" and z: "rows y ! b = [0]"
    and m: "mul x y = Inr st"
  shows "rows st ! b = replicate ss 0"
proof -
  have st: "st = Tensor ss (map2 (\<lambda>r q. map (\<lambda>u. u * hd q) r) (rows x) (rows y))"
    using mul_mask[OF x y] m by simp
  have len: "length (rows x) = B" "length (rows y) = B" "length (rows x ! b) = ss"
    using x y b by (auto simp: shaped_def nrows_def list_all_length)
  have "rows st ! b = map (\<lambda>u. u * 0) (rows x ! b)"
    using st len b z by simp
  also have "\<dots> = replicate ss 0"
    using len by (intro nth_equalityI) auto
  finally show ?thesis .
qed

lemma mul_zeros:
  assumes x: "shaped B ss x"
  shows "mul x (full B 1 0) = Inr (full B ss 0)"
proof -
  have len: "length (rows x) = B" "\<forall>r\<in>set (rows x). length r = ss"
    using x by (auto simp: shaped_def nrows_def list_all_iff)
  have "map2 (\<lambda>r q. map (\<lambda>u. u * hd q) r) (rows x) (replicate B [0::real]) = replicate B (replicate ss 0)"
    using len by (intro nth_equalityI) (auto intro!: nth_equalityI)
  then show ?thesis
    using mul_mask[OF x shaped_full[of B 1 0]] by (simp add: full_def)
qed

subsection \<open>The policy distribution\<close>




subsection \<open>The methods of SampleDist\<close>








subsection \<open>The bias above the threshold\<close>



subsection \<open>Runs of the small instance\<close>

lemmas run_defs = forward_def init_slots_def x0_def \<xi>0_def body_def dynamics_def select_state_def
  mask_state_def index_def next_belief_def prior_params_def posterior_params_def sample_state_def
  randn_like_def cat1_def chunk2_def linear_const_def relu_def gru_zero_def full_def map_tensor_def
  nrows_def mul_def add_def binop_def bdim_def expand_to_def stack_hidden_def stack_def softplus_def
  empty0_def Let_def

lemma inputs_ok_x0:
  "inputs_ok 1 1 1 1 1 x0 [x0, x0] x0 (Some [x0, x0]) None"
  using shaped_x0 by (simp add: inputs_ok_def)

lemma run_obs:
  "forward tm0 \<xi>0 0 x0 [x0, x0] x0 (Some [x0, x0]) None =
     Inr [[x0, x0],
          [Tensor 1 [[ln 2 + 1 / 10]], Tensor 1 [[ln 2 + 1 / 10]]],
          [x0, x0],
          [Tensor 1 [[ln 2 + 1 / 10]], Tensor 1 [[ln 2 + 1 / 10]]],
          [Tensor 1 [[ln 2 + 1 / 10]], Tensor 1 [[ln 2 + 1 / 10]]],
          [x0, x0],
          [Tensor 1 [[ln 2 + 1 / 10]], Tensor 1 [[ln 2 + 1 / 10]]]]"
  by (simp add: run_defs tm0_def)

lemma run_action:
  "ActionModel_forward am0 x0 x0 True =
     Inr \<lparr>sd_dist = Independent (TransformedDistribution
             (Normal x0 (Tensor 1 [[50001 / 10000]])) [TanhTransform]) 1,
          sd_samples = 100\<rparr>"
  by (simp add: ActionModel_forward_def policy_raw_def layer_a_def squash_def Normal_init_def
      SampleDist_init_def am0_def x0_def cat1_def chunk2_def linear_const_def relu_def full_def
      map_tensor_def nrows_def binop_def bdim_def expand_to_def softplus_inverse Let_def)



section \<open>The claims\<close>

text \<open>
  C1, as amended. With no action (\<open>T = 1\<close>) the loop body does not run, and \<open>forward\<close>
  returns no sequences: stacking the empty list of slots raises \<open>RuntimeError\<close>,
  whatever the other inputs are.
\<close>

theorem forward_no_actions_raises:
  "loop m \<xi> [] observations nonterminals (length ([] :: tensor list) + 1 - 1) s = Inr s \<and>
   forward m \<xi> p prev_state [] prev_belief observations nonterminals = Inl RuntimeError"
  by (simp add: forward_def init_slots_def stack_hidden_def stack_def)

text \<open>
  C1 as stated fails: for the small instance and no action, \<open>forward\<close> raises instead
  of returning empty sequences.
\<close>

theorem forward_no_actions_counterexample:
  "forward tm0 \<xi>0 0 x0 [] x0 None None = Inl RuntimeError"
  by (simp add: forward_def init_slots_def stack_hidden_def stack_def)

text \<open>
  C2. With observations, whenever \<open>forward\<close> returns, the posterior mean and standard
  deviation at output index \<open>t\<close> (slot \<open>t + 1\<close>) are the posterior parameters computed
  from the belief at output index \<open>t\<close>, which is the new belief of slot \<open>t + 1\<close>, joined
  with the observation at index \<open>t\<close>.
\<close>

theorem posterior_uses_new_belief_and_observation_t:
  assumes fw: "forward m \<xi> p prev_state actions prev_belief (Some obs) nonterminals = Inr hidden"
    and t: "t < length actions"
  shows "t < length obs \<and>
         posterior_params m (hidden ! 0 ! t) (obs ! t) = Inr (hidden ! 5 ! t, hidden ! 6 ! t) \<and>
         (\<exists>s. loop m \<xi> actions (Some obs) nonterminals (length actions)
                (init_slots (length actions + 1) p prev_state prev_belief) = Inr s \<and>
              hidden ! 0 ! t = beliefs s ! (t + 1))"
proof -
  from forward_Inr[OF fw] obtain s where
    l: "loop m \<xi> actions (Some obs) nonterminals (length actions)
          (init_slots (length actions + 1) p prev_state prev_belief) = Inr s"
    and len: "lens (length actions + 1) s" and h: "hidden = emitted (Some obs) s"
    by blast
  have "hidden ! 0 ! t = beliefs s ! (t + 1)"
    using h len t by (simp add: emitted_def lens_def)
  then show ?thesis
    using forward_aligned[OF fw t] l by blast
qed

theorem posterior_uses_new_belief_and_observation_t_witness:
  "forward tm0 \<xi>0 0 x0 [x0, x0] x0 (Some [x0, x0]) None =
     Inr [[x0, x0],
          [Tensor 1 [[ln 2 + 1 / 10]], Tensor 1 [[ln 2 + 1 / 10]]],
          [x0, x0],
          [Tensor 1 [[ln 2 + 1 / 10]], Tensor 1 [[ln 2 + 1 / 10]]],
          [Tensor 1 [[ln 2 + 1 / 10]], Tensor 1 [[ln 2 + 1 / 10]]],
          [x0, x0],
          [Tensor 1 [[ln 2 + 1 / 10]], Tensor 1 [[ln 2 + 1 / 10]]]] \<and>
   (1::nat) < length [x0, x0] \<and>
   posterior_params tm0 x0 x0 = Inr (x0, Tensor 1 [[ln 2 + 1 / 10]])"
proof -
  have t: "(1::nat) < length [x0, x0]"
    by simp
  from posterior_uses_new_belief_and_observation_t[OF run_obs t]
  have "posterior_params tm0 x0 x0 = Inr (x0, Tensor 1 [[ln 2 + 1 / 10]])"
    by (simp add: eval_nat_numeral)
  then show ?thesis
    using run_obs t by blast
qed




text \<open>
  C4. Every standard deviation that is produced is at least its floor: in what
  \<open>forward\<close> returns, every element of the prior standard deviations (the sequence at
  index 3) and, with observations, of the posterior ones (index 6) is at least
  \<open>min_std_dev\<close>; in the distribution that \<open>ActionModel.forward\<close> returns for a
  configuration with \<open>init_std > 0\<close>, every element of the scale of the normal
  distribution is at least \<open>min_std\<close>.
\<close>

theorem stddev_floor:
  "(forward m \<xi> p prev_state actions prev_belief observations nonterminals = Inr hidden \<longrightarrow>
      (\<forall>x\<in>set (hidden ! 3). \<forall>v\<in>elems x. min_std_dev m \<le> v) \<and>
      (observations \<noteq> None \<longrightarrow> (\<forall>x\<in>set (hidden ! 6). \<forall>v\<in>elems x. min_std_dev m \<le> v)))
   \<and> (0 < init_std am \<and> ActionModel_forward am belief state training = Inr sd \<longrightarrow>
       (\<exists>loc scale.
          sd_dist sd = Independent (TransformedDistribution (Normal loc scale) [TanhTransform]) 1 \<and>
          (\<forall>v\<in>elems scale. min_std am \<le> v)))"
  using forward_floors[of m \<xi> p prev_state actions prev_belief observations nonterminals hidden]
    forward_action_floor[of am belief state training sd]
  by blast

theorem stddev_floor_witness:
  "forward tm0 \<xi>0 0 x0 [x0, x0] x0 (Some [x0, x0]) None =
     Inr [[x0, x0],
          [Tensor 1 [[ln 2 + 1 / 10]], Tensor 1 [[ln 2 + 1 / 10]]],
          [x0, x0],
          [Tensor 1 [[ln 2 + 1 / 10]], Tensor 1 [[ln 2 + 1 / 10]]],
          [Tensor 1 [[ln 2 + 1 / 10]], Tensor 1 [[ln 2 + 1 / 10]]],
          [x0, x0],
          [Tensor 1 [[ln 2 + 1 / 10]], Tensor 1 [[ln 2 + 1 / 10]]]] \<and>
   min_std_dev tm0 \<le> ln 2 + 1 / 10 \<and>
   0 < init_std am0 \<and>
   ActionModel_forward am0 x0 x0 True =
     Inr \<lparr>sd_dist = Independent (TransformedDistribution
             (Normal x0 (Tensor 1 [[50001 / 10000]])) [TanhTransform]) 1,
          sd_samples = 100\<rparr> \<and>
   min_std am0 \<le> 50001 / 10000"
proof -
  let ?H = "[[x0, x0],
          [Tensor 1 [[ln 2 + 1 / 10]], Tensor 1 [[ln 2 + 1 / 10]]],
          [x0, x0],
          [Tensor 1 [[ln 2 + 1 / 10]], Tensor 1 [[ln 2 + 1 / 10]]],
          [Tensor 1 [[ln 2 + 1 / 10]], Tensor 1 [[ln 2 + 1 / 10]]],
          [x0, x0],
          [Tensor 1 [[ln 2 + 1 / 10]], Tensor 1 [[ln 2 + 1 / 10]]]]"
  let ?sd = "\<lparr>sd_dist = Independent (TransformedDistribution
             (Normal x0 (Tensor 1 [[50001 / 10000]])) [TanhTransform]) 1,
          sd_samples = 100\<rparr>"
  have pos: "0 < init_std am0"
    by (simp add: am0_def)
  have H3: "?H ! 3 = [Tensor 1 [[ln 2 + 1 / 10]], Tensor 1 [[ln 2 + 1 / 10]]]"
    by (simp add: numeral_3_eq_3)
  from stddev_floor[of tm0 \<xi>0 0 x0 "[x0, x0]" x0 "Some [x0, x0]" None ?H am0 x0 x0 True ?sd]
  have "(\<forall>x\<in>set (?H ! 3). \<forall>v\<in>elems x. min_std_dev tm0 \<le> v) \<and>
        (\<forall>v\<in>elems (Tensor 1 [[50001 / 10000]]). min_std am0 \<le> v)"
    using run_obs run_action pos by auto
  then have "min_std_dev tm0 \<le> ln 2 + 1 / 10 \<and> min_std am0 \<le> 50001 / 10000"
    unfolding H3 by (simp add: elems_def)
  then show ?thesis
    using run_obs run_action pos by blast
qed



text \<open>
  C6. At a step \<open>t\<close> whose mask has shape \<open>B \<times> 1\<close>, the state passed on to the dynamics
  is the previous state times the mask: for every batch element whose mask entry is 0 its
  row is the zero vector, whatever the previous state was, and for a mask entry that is
  0 throughout it is the zero tensor. The belief is not masked: the step of the dynamics
  computes the new belief from this masked state, the action and the stored belief
  \<open>beliefs[t]\<close> itself.
\<close>

theorem zero_mask_zeroes_state:
  assumes st: "shaped B ss (select_state observations s t)"
    and t: "t < length nt" and nt: "shaped B 1 (nt ! t)"
  shows "\<exists>state.
           mask_state (Some nt) t (select_state observations s t) = Inr state \<and>
           shaped B ss state \<and>
           (\<forall>b<B. rows (nt ! t) ! b = [0] \<longrightarrow> rows state ! b = replicate ss 0) \<and>
           (nt ! t = full B 1 0 \<longrightarrow> state = full B ss 0) \<and>
           body m \<xi> actions observations (Some nt) t s =
             bind_e (index actions (int t)) (\<lambda>action. dynamics m \<xi> observations t state action s) \<and>
           (\<forall>action s'. dynamics m \<xi> observations t state action s = Inr s' \<longrightarrow>
              (\<exists>b. next_belief m state action (beliefs s ! t) = Inr b \<and>
                   beliefs s' = (beliefs s)[t + 1 := b]))"
proof -
  obtain state where ml: "mul (select_state observations s t) (nt ! t) = Inr state"
      and sh: "shaped B ss state"
    using shaped_mul_mask[OF st nt] by auto
  have ms: "mask_state (Some nt) t (select_state observations s t) = Inr state"
    using ml t by (simp add: mask_state_def index_nat)
  have rw: "\<forall>b<B. rows (nt ! t) ! b = [0] \<longrightarrow> rows state ! b = replicate ss 0"
    using mask_zero_row[OF st nt _ _ ml] by blast
  have z: "nt ! t = full B 1 0 \<longrightarrow> state = full B ss 0"
    using mul_zeros[OF st] ml by auto
  have bd: "body m \<xi> actions observations (Some nt) t s =
             bind_e (index actions (int t)) (\<lambda>action. dynamics m \<xi> observations t state action s)"
    using ms by (simp add: body_def)
  have bl: "\<forall>action s'. dynamics m \<xi> observations t state action s = Inr s' \<longrightarrow>
              (\<exists>b. next_belief m state action (beliefs s ! t) = Inr b \<and>
                   beliefs s' = (beliefs s)[t + 1 := b])"
    using dynamics_belief by blast
  show ?thesis
    using ms sh rw z bd bl by (intro exI[of _ state]) blast
qed

theorem zero_mask_zeroes_state_witness:
  "shaped 1 1 (select_state None (init_slots 2 0 (Tensor 1 [[3]]) x0) 0) \<and>
   (0::nat) < length [full 1 1 0] \<and>
   shaped 1 1 ([full 1 1 0] ! 0) \<and>
   mask_state (Some [full 1 1 0]) 0 (select_state None (init_slots 2 0 (Tensor 1 [[3]]) x0) 0)
     = Inr (full 1 1 0)"
proof -
  have a: "shaped 1 1 (select_state None (init_slots 2 0 (Tensor 1 [[3]]) x0) 0)"
    by (simp add: select_state_def init_slots_def shaped_def nrows_def)
  have b: "(0::nat) < length [full 1 1 0]"
    by simp
  have c: "shaped 1 1 ([full 1 1 0] ! 0)"
    by simp
  from zero_mask_zeroes_state[where m = tm0 and \<xi> = \<xi>0 and actions = "[x0]", OF a b c]
  obtain state where
    "mask_state (Some [full 1 1 0]) 0 (select_state None (init_slots 2 0 (Tensor 1 [[3]]) x0) 0)
       = Inr state"
    "[full 1 1 0] ! 0 = full 1 1 0 \<longrightarrow> state = full 1 1 0"
    by blast
  then show ?thesis
    using a b c by simp
qed







text \<open>
  C9. Whenever \<open>forward\<close> returns for \<open>N\<close> actions, it returns four sequences, or seven
  with observations, each of length \<open>N\<close>: they are the final slot lists without their
  slot 0, the seed. For a well-shaped model and well-shaped inputs with at least one
  action, \<open>forward\<close> does return.
\<close>

theorem forward_sequence_lengths:
  "(forward m \<xi> p prev_state actions prev_belief observations nonterminals = Inr hidden \<longrightarrow>
      (\<exists>s. loop m \<xi> actions observations nonterminals (length actions)
             (init_slots (length actions + 1) p prev_state prev_belief) = Inr s \<and>
           hidden = emitted observations s) \<and>
      length hidden = (if observations = None then 4 else 7) \<and>
      (\<forall>h\<in>set hidden. length h = length actions))
   \<and> (model_ok m B bs ss acs hs es \<and>
       inputs_ok B bs ss acs es prev_state actions prev_belief observations nonterminals \<and>
       actions \<noteq> [] \<longrightarrow>
       (\<exists>hidden. forward m \<xi> p prev_state actions prev_belief observations nonterminals = Inr hidden))"
proof (intro conjI impI)
  assume f: "forward m \<xi> p prev_state actions prev_belief observations nonterminals = Inr hidden"
  from forward_Inr[OF f] obtain s where
    l: "loop m \<xi> actions observations nonterminals (length actions)
          (init_slots (length actions + 1) p prev_state prev_belief) = Inr s"
    and s: "lens (length actions + 1) s" "hidden = emitted observations s"
    by blast
  show "\<exists>s. loop m \<xi> actions observations nonterminals (length actions)
             (init_slots (length actions + 1) p prev_state prev_belief) = Inr s \<and>
           hidden = emitted observations s"
    using l s by blast
  show "length hidden = (if observations = None then 4 else 7)"
    using s by (simp add: emitted_def)
  show "\<forall>h\<in>set hidden. length h = length actions"
    using s by (auto simp: emitted_def lens_def)
next
  assume "model_ok m B bs ss acs hs es \<and>
       inputs_ok B bs ss acs es prev_state actions prev_belief observations nonterminals \<and>
       actions \<noteq> []"
  then show "\<exists>hidden. forward m \<xi> p prev_state actions prev_belief observations nonterminals = Inr hidden"
    using forward_total[of m B bs ss acs hs es prev_state actions prev_belief observations
        nonterminals \<xi> p]
    by blast
qed

theorem forward_sequence_lengths_witness:
  "model_ok tm0 1 1 1 1 1 1 \<and>
   inputs_ok 1 1 1 1 1 x0 [x0, x0] x0 (Some [x0, x0]) None \<and>
   [x0, x0] \<noteq> [] \<and>
   forward tm0 \<xi>0 0 x0 [x0, x0] x0 (Some [x0, x0]) None =
     Inr [[x0, x0],
          [Tensor 1 [[ln 2 + 1 / 10]], Tensor 1 [[ln 2 + 1 / 10]]],
          [x0, x0],
          [Tensor 1 [[ln 2 + 1 / 10]], Tensor 1 [[ln 2 + 1 / 10]]],
          [Tensor 1 [[ln 2 + 1 / 10]], Tensor 1 [[ln 2 + 1 / 10]]],
          [x0, x0],
          [Tensor 1 [[ln 2 + 1 / 10]], Tensor 1 [[ln 2 + 1 / 10]]]] \<and>
   length [[x0, x0],
          [Tensor 1 [[ln 2 + 1 / 10]], Tensor 1 [[ln 2 + 1 / 10]]],
          [x0, x0],
          [Tensor 1 [[ln 2 + 1 / 10]], Tensor 1 [[ln 2 + 1 / 10]]],
          [Tensor 1 [[ln 2 + 1 / 10]], Tensor 1 [[ln 2 + 1 / 10]]],
          [x0, x0],
          [Tensor 1 [[ln 2 + 1 / 10]], Tensor 1 [[ln 2 + 1 / 10]]]] = 7 \<and>
   (\<exists>hidden. forward tm0 \<xi>0 0 x0 [x0, x0] x0 (Some [x0, x0]) None = Inr hidden)"
  using forward_sequence_lengths[of tm0 \<xi>0 0 x0 "[x0, x0]" x0 "Some [x0, x0]" None
      "[[x0, x0],
          [Tensor 1 [[ln 2 + 1 / 10]], Tensor 1 [[ln 2 + 1 / 10]]],
          [x0, x0],
          [Tensor 1 [[ln 2 + 1 / 10]], Tensor 1 [[ln 2 + 1 / 10]]],
          [Tensor 1 [[ln 2 + 1 / 10]], Tensor 1 [[ln 2 + 1 / 10]]],
          [x0, x0],
          [Tensor 1 [[ln 2 + 1 / 10]], Tensor 1 [[ln 2 + 1 / 10]]]]" 1 1 1 1 1 1]
    tm0_ok inputs_ok_x0 run_obs
  by simp

text \<open>
  C10. \<open>ActionModel.forward\<close> does not read its \<open>training\<close> flag: for the same model,
  belief and state, the call with \<open>training=True\<close> and the call with \<open>training=False\<close>
  return the same distribution object, or raise the same exception.
\<close>

theorem ActionModel_forward_ignores_training:
  "ActionModel_forward m belief state True = ActionModel_forward m belief state False"
  by (simp add: ActionModel_forward_def)


end
